theory Spec2Isabelle
  imports Main "HOL-Library.Char_ord" "HOL-Library.List_Lexorder" "HOL-Library.AList"
begin

section \<open>JavaScript strings, numbers and JSON text\<close>

text \<open>
  The application (\<^verbatim>\<open>src/my-app/App.js\<close>) is JavaScript. A string is modelled as a
  list of code units below 256 (the Latin-1 range), a number as a mathematical integer
  with \<open>None\<close> standing for \<^verbatim>\<open>NaN\<close> where \<^verbatim>\<open>parseInt\<close> can produce it. The embedding of
  numbers is exact for safe integers (magnitude below \<open>2^53\<close>); fractions, exponents
  and infinities are outside it. A field that may be \<^verbatim>\<open>undefined\<close> is an \<open>option\<close>.
\<close>

definition isWhiteSpace :: "char \<Rightarrow> bool" where
  \<comment> \<open>The white space and line terminators that \<^verbatim>\<open>trim\<close> and \<^verbatim>\<open>parseInt\<close> strip.\<close>
  "isWhiteSpace c = (of_char c \<in> {9, 10, 11, 12, 13, 32, 160 :: nat})"

definition trim :: "string \<Rightarrow> string" where
  "trim s = rev (dropWhile isWhiteSpace (rev (dropWhile isWhiteSpace s)))"

definition toLowerChar :: "char \<Rightarrow> char" where
  "toLowerChar c = (let n = of_char c :: nat in
     if (65 \<le> n \<and> n \<le> 90) \<or> (192 \<le> n \<and> n \<le> 222 \<and> n \<noteq> 215)
     then char_of (n + 32) else c)"

definition toLowerCase :: "string \<Rightarrow> string" where
  "toLowerCase s = map toLowerChar s"

definition isDigit :: "char \<Rightarrow> bool" where
  "isDigit c = (48 \<le> (of_char c :: nat) \<and> (of_char c :: nat) \<le> 57)"

definition digitValue :: "char \<Rightarrow> nat" where
  "digitValue c = of_char c - 48"

definition digitsValue :: "string \<Rightarrow> nat" where
  "digitsValue ds = foldl (\<lambda>a c. 10 * a + digitValue c) 0 ds"

fun natToString :: "nat \<Rightarrow> string" where
  "natToString n =
     (if n < 10 then [char_of (48 + n)]
      else natToString (n div 10) @ [char_of (48 + n mod 10)])"

declare natToString.simps [simp del]

definition numberToString :: "int \<Rightarrow> string" where
  \<comment> \<open>\<^verbatim>\<open>String(n)\<close> for an integer \<open>n\<close>.\<close>
  "numberToString n = (if n < 0 then CHR ''-'' # natToString (nat (- n)) else natToString (nat n))"

definition parseIntString :: "string \<Rightarrow> int option" where
  \<comment> \<open>\<^verbatim>\<open>parseInt(s, 10)\<close> on a string: leading white space, an optional sign, then the
      longest run of decimal digits; \<open>None\<close> (\<^verbatim>\<open>NaN\<close>) when that run is empty.\<close>
  "parseIntString s =
     (let t = dropWhile isWhiteSpace s;
          neg = (case t of [] \<Rightarrow> False | c # _ \<Rightarrow> c = CHR ''-'');
          u = (case t of [] \<Rightarrow> [] | c # r \<Rightarrow> if c = CHR ''-'' \<or> c = CHR ''+'' then r else t);
          ds = takeWhile isDigit u
      in if ds = [] then None
         else Some (if neg then - int (digitsValue ds) else int (digitsValue ds)))"

datatype jsvalue = JSUndefined | JSNumber int | JSString string

fun truthy :: "jsvalue \<Rightarrow> bool" where
  "truthy JSUndefined = False"
| "truthy (JSNumber n) = (n \<noteq> 0)"
| "truthy (JSString s) = (s \<noteq> [])"

definition or_js :: "jsvalue \<Rightarrow> jsvalue \<Rightarrow> jsvalue" where
  \<comment> \<open>\<^verbatim>\<open>a || b\<close>\<close>
  "or_js a b = (if truthy a then a else b)"

definition orElse :: "string option \<Rightarrow> string \<Rightarrow> string" where
  \<comment> \<open>\<^verbatim>\<open>a || d\<close> for a string or \<^verbatim>\<open>undefined\<close> \<open>a\<close>: the empty string is falsy.\<close>
  "orElse a d = (case a of None \<Rightarrow> d | Some s \<Rightarrow> if s = [] then d else s)"

fun toString :: "jsvalue \<Rightarrow> string" where
  "toString JSUndefined = ''undefined''"
| "toString (JSNumber n) = numberToString n"
| "toString (JSString s) = s"

definition parseInt :: "jsvalue \<Rightarrow> int option" where
  \<comment> \<open>\<^verbatim>\<open>parseInt(v, 10)\<close>: the argument is converted to a string first.\<close>
  "parseInt v = parseIntString (toString v)"

definition hexDigit :: "nat \<Rightarrow> char" where
  "hexDigit n = (if n < 10 then char_of (48 + n) else char_of (87 + n))"

definition jsonEscape :: "char \<Rightarrow> string" where
  \<comment> \<open>One code unit inside a JSON string literal, as \<^verbatim>\<open>JSON.stringify\<close> writes it.\<close>
  "jsonEscape c =
     (if c = CHR 0x08 then [CHR 0x5C, CHR ''b'']
      else if c = CHR 0x09 then [CHR 0x5C, CHR ''t'']
      else if c = CHR 0x0A then [CHR 0x5C, CHR ''n'']
      else if c = CHR 0x0C then [CHR 0x5C, CHR ''f'']
      else if c = CHR 0x0D then [CHR 0x5C, CHR ''r'']
      else if c = CHR 0x22 then [CHR 0x5C, CHR 0x22]
      else if c = CHR 0x5C then [CHR 0x5C, CHR 0x5C]
      else if (of_char c :: nat) < 32
        then [CHR 0x5C, CHR ''u'', CHR ''0'', CHR ''0'',
              hexDigit (of_char c div 16), hexDigit (of_char c mod 16)]
      else [c])"

definition jsonQuote :: "string \<Rightarrow> string" where
  "jsonQuote s = CHR 0x22 # concat (map jsonEscape s) @ [CHR 0x22]"

datatype json = JNumber "int option" | JString string

fun stringifyValue :: "json \<Rightarrow> string" where
  "stringifyValue (JNumber None) = ''null''"
| "stringifyValue (JNumber (Some n)) = numberToString n"
| "stringifyValue (JString s) = jsonQuote s"

fun joinWith :: "string \<Rightarrow> string list \<Rightarrow> string" where
  "joinWith sep [] = []"
| "joinWith sep [x] = x"
| "joinWith sep (x # y # ys) = x @ sep @ joinWith sep (y # ys)"

definition stringifyObject :: "(string \<times> json) list \<Rightarrow> string" where
  \<comment> \<open>\<^verbatim>\<open>JSON.stringify\<close> of an object whose properties, in order, are the given pairs.\<close>
  "stringifyObject kvs =
     ''{'' @ joinWith '','' (map (\<lambda>(k, v). jsonQuote k @ '':'' @ stringifyValue v) kvs) @ ''}''"

section \<open>Constants\<close>


definition HISTORY_MAX_ITEMS :: nat where
  "HISTORY_MAX_ITEMS = 50"

definition CACHE_KEY_PREFIX :: string where
  "CACHE_KEY_PREFIX = ''@DefinitionCache:''"

section \<open>Utility functions\<close>

record RequestParams =
  p_word :: "string option"
  p_length :: jsvalue
  p_tone :: "string option"
  p_context :: "string option"
  p_lang :: "string option"


definition keyParams :: "RequestParams \<Rightarrow> (string \<times> json) list" where
  \<comment> \<open>The object \<^verbatim>\<open>keyParams\<close>, its properties in the order the literal creates them.\<close>
  "keyParams params =
     [(''word'', JString (toLowerCase (trim (orElse (p_word params) [])))),
      (''length'', JNumber (parseInt (or_js (p_length params) (JSNumber 0)))),
      (''tone'', JString (toLowerCase (orElse (p_tone params) ''neutral''))),
      (''context'', JString (toLowerCase (orElse (p_context params) ''none''))),
      (''lang'', JString (toLowerCase (orElse (p_lang params) ''auto'')))]"

definition sortedParams :: "(string \<times> json) list \<Rightarrow> (string \<times> json) list" where
  \<comment> \<open>\<^verbatim>\<open>Object.keys(o).sort()\<close>, then each property copied in that order.\<close>
  "sortedParams kp = concat (map (\<lambda>key. filter (\<lambda>(k, v). k = key) kp) (sort (map fst kp)))"

definition generateCacheKey :: "RequestParams \<Rightarrow> string" where
  "generateCacheKey params = CACHE_KEY_PREFIX @ stringifyObject (sortedParams (keyParams params))"

section \<open>Data model\<close>

record Config =
  c_tone :: "string option"
  c_context :: "string option"
  c_effectiveLang :: "string option"

text \<open>
  The definition result: the response body of the Define Service, extended by the
  application with \<^verbatim>\<open>requestedLength\<close>, \<^verbatim>\<open>cacheHit\<close> and, in the cache, \<^verbatim>\<open>savedAt\<close>.
\<close>

record DefinitionResult =
  r_word :: "string option"
  r_result :: "string option"
  r_actualLength :: "int option"
  r_status :: "string option"
  r_config :: "Config option"
  r_requestedLength :: "int option"
  r_cacheHit :: "bool option"
  r_savedAt :: "nat option"

record HistoryResult =
  hr_actualLength :: "int option"
  hr_status :: "string option"
  hr_effectiveLang :: "string option"

text \<open>The argument of \<^verbatim>\<open>addToHistory\<close>, and a stored history entry.\<close>

record HistoryInput =
  i_word :: "string option"
  i_length :: "int option"
  i_tone :: "string option"
  i_context :: "string option"
  i_lang :: "string option"
  i_result :: HistoryResult

record HistoryItem =
  h_word :: string
  h_length :: "int option"
  h_tone :: "string option"
  h_context :: "string option"
  h_lang :: "string option"
  h_timestamp :: nat
  h_result :: HistoryResult

record FavoriteItem =
  f_word :: string
  f_timestamp :: nat

record QuizItem =
  q_word :: string
  q_id :: string

record ToastState =
  t_visible :: bool
  t_message :: string
  t_type :: string

subsection \<open>The key-value store\<close>

text \<open>
  What a cache key holds in the store is text. The model keeps the three kinds of text
  that \<^verbatim>\<open>getCachedDefinition\<close> tells apart: the empty string, text that
  \<^verbatim>\<open>JSON.parse\<close> rejects, and the JSON text of a definition result, which is
  represented by the result itself (\<^verbatim>\<open>JSON.parse\<close> after \<^verbatim>\<open>JSON.stringify\<close>
  gives back a result whose absent fields are \<open>None\<close>).
\<close>

datatype stored = EmptyText | Unparsable | Entry DefinitionResult

datatype storageCall = GetItem string | SetItem string stored | MultiRemove "string list"

datatype 'a promise = Rejected | Resolved 'a

record AsyncStorage =
  items :: "string \<Rightarrow> stored option"
  getItemFails :: "string \<Rightarrow> bool"
  setItemFails :: "string \<Rightarrow> bool"
  multiRemoveFails :: bool
  calls :: "storageCall list"

definition getItem :: "string \<Rightarrow> AsyncStorage \<Rightarrow> stored option promise \<times> AsyncStorage" where
  \<comment> \<open>Modelled from the spec: the Key-Value Store is an external collaborator (the
      AsyncStorage library) with asynchronous \<^verbatim>\<open>get\<close>, \<^verbatim>\<open>set\<close> and \<^verbatim>\<open>removeMany\<close>;
      each operation either resolves or rejects. Which calls reject is part of the
      store's state, and every call is logged.\<close>
  "getItem key st =
     (if getItemFails st key then Rejected else Resolved (items st key),
      st\<lparr>calls := calls st @ [GetItem key]\<rparr>)"

definition setItem :: "string \<Rightarrow> stored \<Rightarrow> AsyncStorage \<Rightarrow> unit promise \<times> AsyncStorage" where
  \<comment> \<open>Modelled from the spec: see \<open>getItem\<close>. A rejected write leaves the items as they were.\<close>
  "setItem key v st =
     (if setItemFails st key then (Rejected, st\<lparr>calls := calls st @ [SetItem key v]\<rparr>)
      else (Resolved (), st\<lparr>items := (items st)(key \<mapsto> v), calls := calls st @ [SetItem key v]\<rparr>))"

definition multiRemove :: "string list \<Rightarrow> AsyncStorage \<Rightarrow> unit promise \<times> AsyncStorage" where
  \<comment> \<open>Modelled from the spec: see \<open>getItem\<close>. A rejected bulk removal is modelled as
      removing nothing.\<close>
  "multiRemove keys st =
     (if multiRemoveFails st then (Rejected, st\<lparr>calls := calls st @ [MultiRemove keys]\<rparr>)
      else (Resolved (),
            st\<lparr>items := (\<lambda>k. if k \<in> set keys then None else items st k),
               calls := calls st @ [MultiRemove keys]\<rparr>))"

subsection \<open>The state of the provider\<close>

text \<open>
  The state hooks of \<^verbatim>\<open>AppProvider\<close>, together with the store. The cache index is a
  JavaScript object from key to time stamp: an association list in property order.
  State updates are applied in program order; \<^verbatim>\<open>Date.now()\<close> is an argument of the
  operation that reads the clock.
\<close>

record AppState =
  form_word :: string
  form_length :: string
  form_tone :: string
  form_contextValue :: string
  form_lang :: string
  definitionResult :: "DefinitionResult option"
  isLoading :: bool
  error :: "string option"
  favorites :: "FavoriteItem list"
  history :: "HistoryItem list"
  quizList :: "QuizItem list"
  definitionsCacheIndex :: "(string \<times> nat) list"
  isInitialDataLoaded :: bool
  toastState :: ToastState
  storage :: AsyncStorage

section \<open>Actions\<close>

definition showToast :: "string \<Rightarrow> string \<Rightarrow> AppState \<Rightarrow> AppState" where
  "showToast msg type s = s\<lparr>toastState := \<lparr>t_visible = True, t_message = msg, t_type = type\<rparr>\<rparr>"

definition getCachedDefinition :: "RequestParams \<Rightarrow> AppState \<Rightarrow> DefinitionResult option \<times> AppState" where
  "getCachedDefinition params s =
     (if \<not> isInitialDataLoaded s then (None, s)
      else
        let cacheKey = generateCacheKey params in
        if (case map_of (definitionsCacheIndex s) cacheKey of None \<Rightarrow> True | Some t \<Rightarrow> t = 0)
          then (None, s)
        else
          (case getItem cacheKey (storage s) of
             (Resolved (Some (Entry definitionData)), st) \<Rightarrow>
               (Some (definitionData\<lparr>r_cacheHit := Some True\<rparr>), s\<lparr>storage := st\<rparr>)
           | (Resolved (Some Unparsable), st) \<Rightarrow>
               (None, s\<lparr>storage := st,
                        definitionsCacheIndex := AList.delete cacheKey (definitionsCacheIndex s)\<rparr>)
           | (Resolved (Some EmptyText), st) \<Rightarrow>
               (None, s\<lparr>storage := st,
                        definitionsCacheIndex := AList.delete cacheKey (definitionsCacheIndex s)\<rparr>)
           | (Resolved None, st) \<Rightarrow>
               (None, s\<lparr>storage := st,
                        definitionsCacheIndex := AList.delete cacheKey (definitionsCacheIndex s)\<rparr>)
           | (Rejected, st) \<Rightarrow>
               (None, s\<lparr>storage := st,
                        definitionsCacheIndex := AList.delete cacheKey (definitionsCacheIndex s)\<rparr>)))"

definition saveToCache :: "nat \<Rightarrow> nat \<Rightarrow> RequestParams \<Rightarrow> DefinitionResult \<Rightarrow> AppState \<Rightarrow> AppState" where
  \<comment> \<open>\<open>savedAt\<close> and \<open>indexedAt\<close> are the two readings of \<^verbatim>\<open>Date.now()\<close>.\<close>
  "saveToCache savedAt indexedAt params resultData s =
     (let cacheKey = generateCacheKey params;
          dataToSave = resultData\<lparr>r_savedAt := Some savedAt\<rparr>
      in case setItem cacheKey (Entry dataToSave) (storage s) of
           (Resolved _, st) \<Rightarrow>
             s\<lparr>storage := st,
               definitionsCacheIndex := AList.update cacheKey indexedAt (definitionsCacheIndex s)\<rparr>
         | (Rejected, st) \<Rightarrow>
             showToast ''Could not save definition locally.'' ''error'' (s\<lparr>storage := st\<rparr>))"

definition clearCache :: "AppState \<Rightarrow> AppState" where
  "clearCache s =
     (let keysToRemove = map fst (definitionsCacheIndex s) in
      if length keysToRemove > 0 then
        (case multiRemove keysToRemove (storage s) of
           (Resolved _, st) \<Rightarrow>
             (let clearedCount = length keysToRemove in
              showToast (natToString clearedCount @ '' definition(s) cleared from cache.'') ''success''
                (s\<lparr>storage := st, definitionsCacheIndex := []\<rparr>))
         | (Rejected, st) \<Rightarrow>
             (showToast ''Cache clear failed. Some items might remain.'' ''error''
                (s\<lparr>storage := st\<rparr>))\<lparr>definitionsCacheIndex := []\<rparr>)
      else
        (let clearedCount = 0 in
         showToast (natToString clearedCount @ '' definition(s) cleared from cache.'') ''success''
           (s\<lparr>definitionsCacheIndex := []\<rparr>)))"

definition sameSearch :: "HistoryItem \<Rightarrow> HistoryItem \<Rightarrow> bool" where
  \<comment> \<open>The test inside the filter of \<^verbatim>\<open>addToHistory\<close>, before its negation.\<close>
  "sameSearch h newItem =
     (toLowerCase (h_word h) = toLowerCase (h_word newItem) \<and>
      h_length h = h_length newItem \<and>
      toLowerCase (orElse (h_tone h) []) = toLowerCase (orElse (h_tone newItem) []) \<and>
      toLowerCase (orElse (h_context h) []) = toLowerCase (orElse (h_context newItem) []) \<and>
      toLowerCase (orElse (h_lang h) []) = toLowerCase (orElse (h_lang newItem) []))"

definition addToHistory :: "nat \<Rightarrow> HistoryInput option \<Rightarrow> AppState \<Rightarrow> AppState" where
  "addToHistory now item s =
     (case item of
        None \<Rightarrow> s
      | Some it \<Rightarrow>
          (case i_word it of
             None \<Rightarrow> s
           | Some w \<Rightarrow>
               if w = [] then s
               else
                 let newItem = \<lparr>h_word = w, h_length = i_length it, h_tone = i_tone it,
                                h_context = i_context it, h_lang = i_lang it,
                                h_timestamp = now, h_result = i_result it\<rparr>;
                     updatedHistory = filter (\<lambda>h. \<not> sameSearch h newItem) (history s)
                 in s\<lparr>history := take HISTORY_MAX_ITEMS (newItem # updatedHistory)\<rparr>))"








section \<open>Sequences of calls and the properties they keep\<close>

definition recordAll :: "(nat \<times> HistoryInput option) list \<Rightarrow> AppState \<Rightarrow> AppState" where
  \<comment> \<open>A sequence of \<^verbatim>\<open>addToHistory\<close> calls, each with its clock reading.\<close>
  "recordAll cs s = fold (\<lambda>(now, item). addToHistory now item) cs s"

fun noDuplicateSearch :: "HistoryItem list \<Rightarrow> bool" where
  \<comment> \<open>At most one entry per identity tuple: no two entries pass the filter test of
      \<^verbatim>\<open>addToHistory\<close> against each other.\<close>
  "noDuplicateSearch [] = True"
| "noDuplicateSearch (h # hs) = (list_all (\<lambda>x. \<not> sameSearch x h) hs \<and> noDuplicateSearch hs)"





section \<open>Concrete states and inputs\<close>

definition emptyStorage :: AsyncStorage where
  \<comment> \<open>A store that holds nothing and rejects no call.\<close>
  "emptyStorage =
     \<lparr>items = (\<lambda>k. None), getItemFails = (\<lambda>k. False), setItemFails = (\<lambda>k. False),
      multiRemoveFails = False, calls = []\<rparr>"

definition initialState :: AppState where
  \<comment> \<open>The initial values of the state hooks of \<^verbatim>\<open>AppProvider\<close>, before the persisted
      collections have been loaded.\<close>
  "initialState =
     \<lparr>form_word = [], form_length = ''30'', form_tone = [], form_contextValue = [], form_lang = [],
      definitionResult = None, isLoading = False, error = None,
      favorites = [], history = [], quizList = [], definitionsCacheIndex = [],
      isInitialDataLoaded = False,
      toastState = \<lparr>t_visible = False, t_message = [], t_type = ''info''\<rparr>,
      storage = emptyStorage\<rparr>"

definition loadedState :: AppState where
  "loadedState = initialState\<lparr>isInitialDataLoaded := True\<rparr>"

definition exampleParams :: RequestParams where
  "exampleParams =
     \<lparr>p_word = Some ''Ephemeral'', p_length = JSNumber 25, p_tone = Some ''formal'',
      p_context = None, p_lang = None\<rparr>"

definition exampleParamsTyped :: RequestParams where
  \<comment> \<open>The same request as typed into the form: padded, capitalised, the length as text.\<close>
  "exampleParamsTyped =
     \<lparr>p_word = Some '' ephemeral '', p_length = JSString ''25'', p_tone = Some ''Formal'',
      p_context = None, p_lang = None\<rparr>"

definition absentParams :: RequestParams where
  \<comment> \<open>Every field absent.\<close>
  "absentParams =
     \<lparr>p_word = None, p_length = JSUndefined, p_tone = None, p_context = None, p_lang = None\<rparr>"

definition defaultParams :: RequestParams where
  \<comment> \<open>The defaults written out, in other letter case.\<close>
  "defaultParams =
     \<lparr>p_word = Some '' '', p_length = JSString ''0'', p_tone = Some ''Neutral'',
      p_context = Some ''NONE'', p_lang = Some ''Auto''\<rparr>"

definition exampleParamsBadLength :: RequestParams where
  "exampleParamsBadLength =
     \<lparr>p_word = Some ''cat'', p_length = JSString ''abc'', p_tone = None,
      p_context = None, p_lang = None\<rparr>"

definition exampleResult :: DefinitionResult where
  "exampleResult =
     \<lparr>r_word = Some ''Ephemeral'', r_result = Some ''Lasting a very short time.'',
      r_actualLength = Some 5, r_status = Some ''success'',
      r_config = Some \<lparr>c_tone = Some ''formal'', c_context = None, c_effectiveLang = Some ''en''\<rparr>,
      r_requestedLength = Some 25, r_cacheHit = Some False, r_savedAt = None\<rparr>"

definition staleIndexState :: AppState where
  \<comment> \<open>The index names a key for which the store holds nothing.\<close>
  "staleIndexState = loadedState\<lparr>definitionsCacheIndex := [(generateCacheKey exampleParams, 1000)]\<rparr>"

definition staleIndexStateLoading :: AppState where
  \<comment> \<open>The same disagreement while the persisted collections are still loading.\<close>
  "staleIndexStateLoading = staleIndexState\<lparr>isInitialDataLoaded := False\<rparr>"

definition cachedState :: AppState where
  \<comment> \<open>After one successful \<^verbatim>\<open>saveToCache\<close>.\<close>
  "cachedState = saveToCache 1000 1001 exampleParams exampleResult loadedState"

definition cachedStateWriteFails :: AppState where
  "cachedStateWriteFails = cachedState\<lparr>storage := (storage cachedState)\<lparr>setItemFails := (\<lambda>k. True)\<rparr>\<rparr>"

definition cachedStateRemoveFails :: AppState where
  "cachedStateRemoveFails = cachedState\<lparr>storage := (storage cachedState)\<lparr>multiRemoveFails := True\<rparr>\<rparr>"

definition loadedStateWriteFails :: AppState where
  "loadedStateWriteFails = loadedState\<lparr>storage := emptyStorage\<lparr>setItemFails := (\<lambda>k. True)\<rparr>\<rparr>"

definition exampleInput :: HistoryInput where
  "exampleInput =
     \<lparr>i_word = Some ''Ephemeral'', i_length = Some 25, i_tone = Some ''formal'', i_context = None,
      i_lang = Some ''en'',
      i_result = \<lparr>hr_actualLength = Some 5, hr_status = Some ''success'', hr_effectiveLang = Some ''en''\<rparr>\<rparr>"

definition exampleEntry :: HistoryItem where
  "exampleEntry =
     \<lparr>h_word = ''serendipity'', h_length = Some 30, h_tone = None, h_context = None, h_lang = None,
      h_timestamp = 500,
      h_result = \<lparr>hr_actualLength = Some 6, hr_status = Some ''success'', hr_effectiveLang = Some ''en''\<rparr>\<rparr>"

definition exampleOldEntry :: HistoryItem where
  \<comment> \<open>An earlier search for the tuple of \<open>exampleInput\<close>, written in other letter case.\<close>
  "exampleOldEntry =
     \<lparr>h_word = ''EPHEMERAL'', h_length = Some 25, h_tone = Some ''Formal'', h_context = None,
      h_lang = Some ''EN'', h_timestamp = 400,
      h_result = \<lparr>hr_actualLength = Some 4, hr_status = Some ''success'', hr_effectiveLang = Some ''en''\<rparr>\<rparr>"

definition duplicateHistoryState :: AppState where
  "duplicateHistoryState = loadedState\<lparr>history := [exampleEntry, exampleEntry]\<rparr>"

definition historyState :: AppState where
  "historyState = loadedState\<lparr>history := [exampleEntry, exampleOldEntry]\<rparr>"

definition favoriteState :: AppState where
  "favoriteState = loadedState\<lparr>favorites := [\<lparr>f_word = ''Cat'', f_timestamp = 300\<rparr>],
                                quizList := [\<lparr>q_word = ''Cat'', q_id = ''300''\<rparr>]\<rparr>"




section \<open>Numbers as text\<close>

lemma digitsValue_snoc: "digitsValue (xs @ [c]) = 10 * digitsValue xs + digitValue c"
  by (simp add: digitsValue_def)

lemma digitValue_digit: "(d::nat) < 10 \<Longrightarrow> digitValue (char_of (48 + d)) = d"
  by (simp add: digitValue_def)

lemma isDigit_digit: "(d::nat) < 10 \<Longrightarrow> isDigit (char_of (48 + d))"
  by (simp add: isDigit_def)

lemma natToString_isDigit: "c \<in> set (natToString n) \<Longrightarrow> isDigit c"
proof (induction n rule: natToString.induct)
  case (1 n)
  show ?case
  proof (cases "n < 10")
    case True
    with "1.prems" show ?thesis
      by (simp add: natToString.simps [of n] isDigit_digit)
  next
    case False
    with "1.prems" "1.IH" show ?thesis
      by (auto simp: natToString.simps [of n] isDigit_digit)
  qed
qed

lemma natToString_not_Nil: "natToString n \<noteq> []"
  by (subst natToString.simps) simp

lemma digitsValue_natToString: "digitsValue (natToString n) = n"
proof (induction n rule: natToString.induct)
  case (1 n)
  show ?case
  proof (cases "n < 10")
    case True
    then show ?thesis
      by (simp add: natToString.simps [of n] digitsValue_def digitValue_digit)
  next
    case False
    with "1.IH" show ?thesis
      by (simp add: natToString.simps [of n] digitsValue_snoc digitValue_digit)
  qed
qed

lemma isDigit_not_special:
  "isDigit c \<Longrightarrow> \<not> isWhiteSpace c \<and> c \<noteq> CHR ''-'' \<and> c \<noteq> CHR ''+'' \<and> c \<noteq> CHR '',''"
  by (auto simp: isDigit_def isWhiteSpace_def)

lemma takeWhile_isDigit_natToString: "takeWhile isDigit (natToString n) = natToString n"
  by (simp add: takeWhile_eq_all_conv natToString_isDigit)

lemma parseIntString_natToString: "parseIntString (natToString n) = Some (int n)"
proof -
  obtain c r where cr: "natToString n = c # r"
    using natToString_not_Nil [of n] by (cases "natToString n") auto
  then have "isDigit c"
    using natToString_isDigit [of c n] by simp
  then have c: "\<not> isWhiteSpace c" "c \<noteq> CHR ''-''" "c \<noteq> CHR ''+''"
    using isDigit_not_special by auto
  have tw: "takeWhile isDigit (c # r) = c # r"
    using takeWhile_isDigit_natToString [of n] cr by simp
  have dv: "digitsValue (c # r) = n"
    using digitsValue_natToString [of n] cr by simp
  from c show ?thesis
    unfolding parseIntString_def cr by (simp add: Let_def tw dv del: takeWhile.simps)
qed

lemma parseIntString_minus_natToString:
  "parseIntString (CHR ''-'' # natToString n) = Some (- int n)"
proof -
  have ws: "\<not> isWhiteSpace (CHR ''-'')"
    by (simp add: isWhiteSpace_def)
  show ?thesis
    unfolding parseIntString_def
    using ws natToString_not_Nil [of n]
    by (simp add: Let_def takeWhile_isDigit_natToString digitsValue_natToString)
qed

lemma parseIntString_numberToString: "parseIntString (numberToString n) = Some n"
  by (simp add: numberToString_def parseIntString_natToString parseIntString_minus_natToString)

lemma parseInt_JSNumber: "parseInt (JSNumber n) = Some n"
  by (simp add: parseInt_def parseIntString_numberToString)





section \<open>JSON string literals can be read back\<close>









section \<open>The cache key\<close>




lemmas string_eval = toLowerCase_def toLowerChar_def trim_def isWhiteSpace_def char_of_def bit_0
  orElse_def or_js_def parseInt_def parseIntString_def isDigit_def digitValue_def digitsValue_def
  numberToString_def natToString.simps

lemmas example_defs = emptyStorage_def initialState_def loadedState_def exampleParams_def
  absentParams_def defaultParams_def exampleParamsTyped_def exampleParamsBadLength_def exampleResult_def staleIndexState_def
  staleIndexStateLoading_def cachedState_def cachedStateWriteFails_def cachedStateRemoveFails_def
  loadedStateWriteFails_def exampleInput_def exampleEntry_def exampleOldEntry_def
  duplicateHistoryState_def historyState_def favoriteState_def

section \<open>Cache key derivation\<close>






section \<open>The definition cache\<close>




text \<open>
  Claim C3, amended. When the write of \<^verbatim>\<open>saveToCache\<close> is rejected, the index and the
  stored items stay as they were, the notice that the definition could not be saved is
  shown, the error and the displayed result are untouched, and a lookup of the same
  request afterwards returns nothing provided the key was not in the index before.
\<close>

theorem saveToCache_write_fails:
  assumes "setItemFails (storage s) (generateCacheKey p)"
  shows "definitionsCacheIndex (saveToCache savedAt indexedAt p r s) = definitionsCacheIndex s
       \<and> items (storage (saveToCache savedAt indexedAt p r s)) = items (storage s)
       \<and> toastState (saveToCache savedAt indexedAt p r s)
           = \<lparr>t_visible = True, t_message = ''Could not save definition locally.'', t_type = ''error''\<rparr>
       \<and> error (saveToCache savedAt indexedAt p r s) = error s
       \<and> definitionResult (saveToCache savedAt indexedAt p r s) = definitionResult s
       \<and> ((case map_of (definitionsCacheIndex s) (generateCacheKey p) of None \<Rightarrow> True | Some t \<Rightarrow> t = 0)
            \<longrightarrow> fst (getCachedDefinition p (saveToCache savedAt indexedAt p r s)) = None)"
  using assms
  by (simp add: saveToCache_def setItem_def showToast_def getCachedDefinition_def Let_def)

theorem saveToCache_write_fails_witness:
  "definitionsCacheIndex (saveToCache 1000 1001 exampleParams exampleResult loadedStateWriteFails) = []
   \<and> t_message (toastState (saveToCache 1000 1001 exampleParams exampleResult loadedStateWriteFails))
       = ''Could not save definition locally.''
   \<and> fst (getCachedDefinition exampleParams
            (saveToCache 1000 1001 exampleParams exampleResult loadedStateWriteFails)) = None"
  using saveToCache_write_fails [of loadedStateWriteFails exampleParams 1000 1001 exampleResult]
  by (simp add: example_defs)

text \<open>
  The claim as stated promises that the lookup returns nothing after any rejected write.
  When an earlier write of the same key succeeded, the key is in the index and the store
  still holds the earlier entry: the lookup after the rejected write returns that entry.
\<close>

theorem saveToCache_write_fails_counterexample:
  "setItemFails (storage cachedStateWriteFails) (generateCacheKey exampleParams)
   \<and> fst (getCachedDefinition exampleParams
            (saveToCache 2000 2001 exampleParams (exampleResult\<lparr>r_result := Some ''Brief.''\<rparr>)
               cachedStateWriteFails))
       = Some (exampleResult\<lparr>r_savedAt := Some 1000, r_cacheHit := Some True\<rparr>)"
  by (simp add: getCachedDefinition_def saveToCache_def setItem_def getItem_def showToast_def Let_def
      example_defs)




text \<open>
  Claim C5, amended. \<^verbatim>\<open>clearCache\<close> always leaves the index empty. When the index is
  not empty it asks the store, in one bulk call, to remove exactly the keys of the index.
  When that call is rejected the failure notice is shown, which carries no count. In every
  other case the success notice reports the number of keys that were in the index, and when
  the call was not rejected none of those keys is left in the store. The function itself
  returns no value.
\<close>

theorem clearCache_resets_index:
  "definitionsCacheIndex (clearCache s) = []
   \<and> calls (storage (clearCache s))
       = calls (storage s) @ (if definitionsCacheIndex s = [] then []
                              else [MultiRemove (map fst (definitionsCacheIndex s))])
   \<and> (multiRemoveFails (storage s) \<and> definitionsCacheIndex s \<noteq> []
        \<longrightarrow> toastState (clearCache s)
              = \<lparr>t_visible = True, t_message = ''Cache clear failed. Some items might remain.'',
                 t_type = ''error''\<rparr>)
   \<and> (\<not> (multiRemoveFails (storage s) \<and> definitionsCacheIndex s \<noteq> [])
        \<longrightarrow> toastState (clearCache s)
              = \<lparr>t_visible = True,
                 t_message = natToString (length (definitionsCacheIndex s)) @ '' definition(s) cleared from cache.'',
                 t_type = ''success''\<rparr>)
   \<and> (\<not> multiRemoveFails (storage s)
        \<longrightarrow> (\<forall>k \<in> set (map fst (definitionsCacheIndex s)). items (storage (clearCache s)) k = None))"
proof (cases "definitionsCacheIndex s = []")
  case True
  then show ?thesis
    by (simp add: clearCache_def showToast_def)
next
  case False
  show ?thesis
  proof (cases "multiRemoveFails (storage s)")
    case True
    with False show ?thesis
      by (simp add: clearCache_def multiRemove_def showToast_def)
  next
    case removed: False
    with False show ?thesis
      by (simp add: clearCache_def multiRemove_def showToast_def Let_def)
  qed
qed

theorem clearCache_resets_index_witness:
  "definitionsCacheIndex (clearCache cachedState) = []
   \<and> items (storage (clearCache cachedState)) (generateCacheKey exampleParams) = None
   \<and> t_message (toastState (clearCache cachedState)) = ''1 definition(s) cleared from cache.''
   \<and> definitionsCacheIndex (clearCache cachedStateRemoveFails) = []
   \<and> t_message (toastState (clearCache cachedStateRemoveFails))
       = ''Cache clear failed. Some items might remain.''"
  using clearCache_resets_index [of cachedState] clearCache_resets_index [of cachedStateRemoveFails]
  by (simp add: example_defs saveToCache_def setItem_def Let_def natToString.simps char_of_def bit_0)

text \<open>
  The claim as stated has the number of targeted keys reported also when the bulk removal
  fails. With one key in the index and a rejected removal, all that changes is the log of
  the store, the notice, which is the failure text, and the index: the count 1 is nowhere.
\<close>

theorem clearCache_count_counterexample:
  "map fst (definitionsCacheIndex cachedStateRemoveFails) = [generateCacheKey exampleParams]
   \<and> clearCache cachedStateRemoveFails
       = cachedStateRemoveFails
           \<lparr>storage := (storage cachedStateRemoveFails)
              \<lparr>calls := calls (storage cachedStateRemoveFails)
                          @ [MultiRemove [generateCacheKey exampleParams]]\<rparr>,
            toastState := \<lparr>t_visible = True,
                           t_message = ''Cache clear failed. Some items might remain.'',
                           t_type = ''error''\<rparr>,
            definitionsCacheIndex := []\<rparr>"
  by (simp add: clearCache_def multiRemove_def showToast_def example_defs saveToCache_def setItem_def Let_def)

section \<open>The history ledger\<close>

text \<open>
  The filter test of \<^verbatim>\<open>addToHistory\<close> compares two entries by their identity tuples,
  so it is an equivalence.
\<close>

lemma sameSearch_refl: "sameSearch h h"
  by (simp add: sameSearch_def)

lemma sameSearch_sym: "sameSearch a b \<Longrightarrow> sameSearch b a"
  by (simp add: sameSearch_def)

lemma sameSearch_trans: "sameSearch a b \<Longrightarrow> sameSearch b c \<Longrightarrow> sameSearch a c"
  by (simp add: sameSearch_def)

lemma noDuplicateSearch_filter: "noDuplicateSearch hs \<Longrightarrow> noDuplicateSearch (filter P hs)"
  by (induction hs) (auto simp: list_all_iff)

lemma noDuplicateSearch_take: "noDuplicateSearch hs \<Longrightarrow> noDuplicateSearch (take n hs)"
proof (induction hs arbitrary: n)
  case Nil
  then show ?case by simp
next
  case (Cons h hs)
  show ?case
  proof (cases n)
    case 0
    then show ?thesis by simp
  next
    case (Suc m)
    have "set (take m hs) \<subseteq> set hs"
      by (rule set_take_subset)
    with Cons Suc show ?thesis
      by (auto simp: list_all_iff)
  qed
qed

lemma noDuplicateSearch_prepend:
  "noDuplicateSearch hs \<Longrightarrow>
   noDuplicateSearch (take n (newItem # filter (\<lambda>h. \<not> sameSearch h newItem) hs))"
  by (rule noDuplicateSearch_take) (simp add: noDuplicateSearch_filter list_all_iff)

lemma addToHistory_history:
  "history (addToHistory now item s) = history s
   \<or> (\<exists>newItem. history (addToHistory now item s)
         = take HISTORY_MAX_ITEMS (newItem # filter (\<lambda>h. \<not> sameSearch h newItem) (history s)))"
  by (auto simp: addToHistory_def Let_def split: option.splits)

lemma addToHistory_invariant:
  assumes "length (history s) \<le> HISTORY_MAX_ITEMS" and "noDuplicateSearch (history s)"
  shows "length (history (addToHistory now item s)) \<le> HISTORY_MAX_ITEMS
         \<and> noDuplicateSearch (history (addToHistory now item s))"
  using addToHistory_history [of now item s] assms
  by (auto simp: noDuplicateSearch_prepend)

lemma recordAll_invariant:
  "length (history s) \<le> HISTORY_MAX_ITEMS \<Longrightarrow> noDuplicateSearch (history s) \<Longrightarrow>
   length (history (recordAll cs s)) \<le> HISTORY_MAX_ITEMS
   \<and> noDuplicateSearch (history (recordAll cs s))"
proof (induction cs arbitrary: s)
  case Nil
  then show ?case by (simp add: recordAll_def)
next
  case (Cons c cs)
  obtain now item where c: "c = (now, item)"
    by (cases c)
  have "length (history (addToHistory now item s)) \<le> HISTORY_MAX_ITEMS"
    and "noDuplicateSearch (history (addToHistory now item s))"
    using addToHistory_invariant [OF Cons.prems] by simp_all
  from Cons.IH [OF this] show ?case
    by (simp add: recordAll_def c)
qed

lemma addToHistory_replaces:
  assumes "i_word it = Some w" and "w \<noteq> []"
  shows "\<exists>rest. history (addToHistory now (Some it) s)
            = \<lparr>h_word = w, h_length = i_length it, h_tone = i_tone it, h_context = i_context it,
               h_lang = i_lang it, h_timestamp = now, h_result = i_result it\<rparr> # rest
          \<and> list_all (\<lambda>h. \<not> sameSearch h \<lparr>h_word = w, h_length = i_length it, h_tone = i_tone it,
               h_context = i_context it, h_lang = i_lang it, h_timestamp = now,
               h_result = i_result it\<rparr>) rest"
proof -
  let ?new = "\<lparr>h_word = w, h_length = i_length it, h_tone = i_tone it, h_context = i_context it,
               h_lang = i_lang it, h_timestamp = now, h_result = i_result it\<rparr>"
  let ?rest = "take 49 (filter (\<lambda>h. \<not> sameSearch h ?new) (history s))"
  have "history (addToHistory now (Some it) s) = ?new # ?rest"
    using assms by (simp add: addToHistory_def Let_def HISTORY_MAX_ITEMS_def take_Cons')
  moreover have "list_all (\<lambda>h. \<not> sameSearch h ?new) ?rest"
    using set_take_subset [of 49 "filter (\<lambda>h. \<not> sameSearch h ?new) (history s)"]
    by (auto simp: list_all_iff)
  ultimately show ?thesis by blast
qed

text \<open>
  Claim C6, amended. Start from a history of at most \<^verbatim>\<open>HISTORY_MAX_ITEMS\<close> entries in
  which no two entries have the same identity tuple (word, tone, context and lang compared
  case-insensitively, the length compared as it is). After any sequence of
  \<^verbatim>\<open>addToHistory\<close> calls the history still has at most 50 entries and no two entries
  with the same tuple. Recording an item with a non-empty word puts that item first, with
  the time of the call as its time stamp, and leaves no other entry with its tuple.
\<close>

theorem addToHistory_bounded_unique:
  assumes "length (history s) \<le> HISTORY_MAX_ITEMS" and "noDuplicateSearch (history s)"
  shows "length (history (recordAll cs s)) \<le> HISTORY_MAX_ITEMS
       \<and> noDuplicateSearch (history (recordAll cs s))
       \<and> (i_word it = Some w \<and> w \<noteq> [] \<longrightarrow>
            (\<exists>rest. history (addToHistory now (Some it) (recordAll cs s))
                = \<lparr>h_word = w, h_length = i_length it, h_tone = i_tone it, h_context = i_context it,
                   h_lang = i_lang it, h_timestamp = now, h_result = i_result it\<rparr> # rest
              \<and> list_all (\<lambda>h. \<not> sameSearch h \<lparr>h_word = w, h_length = i_length it, h_tone = i_tone it,
                   h_context = i_context it, h_lang = i_lang it, h_timestamp = now,
                   h_result = i_result it\<rparr>) rest))"
  using recordAll_invariant [OF assms, of cs] addToHistory_replaces [of it w now "recordAll cs s"]
  by blast

text \<open>
  A search recorded before in another letter case is replaced: recording it again, and
  then once more, leaves one entry for it, in front, with the newest time stamp.
\<close>

theorem addToHistory_bounded_unique_witness:
  "length (history historyState) \<le> HISTORY_MAX_ITEMS
   \<and> noDuplicateSearch (history historyState)
   \<and> history (recordAll [(2000, Some exampleInput)] historyState)
       = [\<lparr>h_word = ''Ephemeral'', h_length = Some 25, h_tone = Some ''formal'', h_context = None,
           h_lang = Some ''en'', h_timestamp = 2000, h_result = i_result exampleInput\<rparr>,
          exampleEntry]
   \<and> history (addToHistory 3000 (Some exampleInput) (recordAll [(2000, Some exampleInput)] historyState))
       = [\<lparr>h_word = ''Ephemeral'', h_length = Some 25, h_tone = Some ''formal'', h_context = None,
           h_lang = Some ''en'', h_timestamp = 3000, h_result = i_result exampleInput\<rparr>,
          exampleEntry]"
  using addToHistory_bounded_unique
          [of historyState "[(2000, Some exampleInput)]" exampleInput "''Ephemeral''" 3000]
  by (simp add: recordAll_def addToHistory_def sameSearch_def Let_def HISTORY_MAX_ITEMS_def
      example_defs string_eval)

text \<open>
  The claim as stated starts from any history of at most 50 entries. A history of two
  entries with the same tuple keeps them through a call that records another search.
\<close>

theorem addToHistory_duplicates_counterexample:
  "length (history duplicateHistoryState) \<le> HISTORY_MAX_ITEMS
   \<and> history (recordAll [(2000, Some exampleInput)] duplicateHistoryState)
       = [\<lparr>h_word = ''Ephemeral'', h_length = Some 25, h_tone = Some ''formal'', h_context = None,
           h_lang = Some ''en'', h_timestamp = 2000, h_result = i_result exampleInput\<rparr>,
          exampleEntry, exampleEntry]
   \<and> \<not> noDuplicateSearch (history (recordAll [(2000, Some exampleInput)] duplicateHistoryState))"
  by (simp add: recordAll_def addToHistory_def sameSearch_def Let_def HISTORY_MAX_ITEMS_def
      example_defs string_eval)

text \<open>
  Claim C10. \<^verbatim>\<open>addToHistory\<close> called with no item, or with an item whose word is absent
  or empty, changes nothing: the state, and with it the history and every time stamp in
  it, is returned as it was.
\<close>

theorem addToHistory_ignores_empty:
  "addToHistory now None s = s
   \<and> addToHistory now (Some (it\<lparr>i_word := None\<rparr>)) s = s
   \<and> addToHistory now (Some (it\<lparr>i_word := Some []\<rparr>)) s = s"
  by (simp add: addToHistory_def)

theorem addToHistory_ignores_empty_witness:
  "history (addToHistory 2000 None historyState) = [exampleEntry, exampleOldEntry]
   \<and> history (addToHistory 2000 (Some (exampleInput\<lparr>i_word := None\<rparr>)) historyState)
       = [exampleEntry, exampleOldEntry]
   \<and> history (addToHistory 2000 (Some (exampleInput\<lparr>i_word := Some []\<rparr>)) historyState)
       = [exampleEntry, exampleOldEntry]"
  using addToHistory_ignores_empty [of 2000 historyState exampleInput]
  by (simp add: historyState_def)

section \<open>The request orchestrator\<close>



section \<open>Favorites and the quiz list\<close>














end
